theory Spec2Isabelle
  imports Complex_Main
begin

section \<open>Numbers and strings of the host language\<close>

text \<open>
  A TypeScript \<open>number\<close> that carries a weight, a rep count or an exertion value is
  modelled as an exact \<open>real\<close>: the arithmetic of the tools is read without the
  representation error of binary floating point. Counts that drive loops (weeks,
  sessions, days) and indices are integers in every use the tools make of them and are
  modelled as \<open>nat\<close> or \<open>int\<close>.

  \<open>Math.round\<close> rounds to the nearest integer, a half going up.
\<close>

definition Math_round :: "real \<Rightarrow> int" where
  "Math_round x = \<lfloor>x + 1 / 2\<rfloor>"

text \<open>
  Strings are lists of characters. The case mappings and the character classes are those
  of ASCII text; other characters are left unchanged by the case mappings and belong to
  no class.
\<close>

definition lower_of :: "char \<Rightarrow> char" where
  "lower_of c =
     (case map_of (zip ''ABCDEFGHIJKLMNOPQRSTUVWXYZ'' ''abcdefghijklmnopqrstuvwxyz'') c of
        Some d \<Rightarrow> d
      | None \<Rightarrow> c)"

definition upper_of :: "char \<Rightarrow> char" where
  "upper_of c =
     (case map_of (zip ''abcdefghijklmnopqrstuvwxyz'' ''ABCDEFGHIJKLMNOPQRSTUVWXYZ'') c of
        Some d \<Rightarrow> d
      | None \<Rightarrow> c)"

definition toLowerCase :: "string \<Rightarrow> string" where
  "toLowerCase s = map lower_of s"

definition toUpperCase :: "string \<Rightarrow> string" where
  "toUpperCase s = map upper_of s"

text \<open>The regular-expression classes \<open>\d\<close> and \<open>\s\<close>.\<close>

definition is_digit :: "char \<Rightarrow> bool" where
  "is_digit c = (c \<in> set ''0123456789'')"

definition is_space :: "char \<Rightarrow> bool" where
  "is_space c =
     (c \<in> {CHR '' '', CHR 0x09, CHR 0x0A, CHR 0x0B, CHR 0x0C, CHR 0x0D})"

fun startsWith :: "string \<Rightarrow> string \<Rightarrow> bool" where
  "startsWith s [] = True"
| "startsWith [] (p # ps) = False"
| "startsWith (c # cs) (p # ps) = (c = p \<and> startsWith cs ps)"

text \<open>\<open>s.includes(p)\<close>: \<open>p\<close> occurs in \<open>s\<close> as a contiguous substring.\<close>

fun includes_str :: "string \<Rightarrow> string \<Rightarrow> bool" where
  "includes_str [] p = startsWith [] p"
| "includes_str (c # cs) p = (startsWith (c # cs) p \<or> includes_str cs p)"

text \<open>\<open>xs.indexOf(x)\<close>: the first position of \<open>x\<close>, or \<open>-1\<close>.\<close>

fun indexOf :: "'a list \<Rightarrow> 'a \<Rightarrow> int" where
  "indexOf [] x = - 1"
| "indexOf (y # ys) x =
     (if y = x then 0 else (let r = indexOf ys x in if r < 0 then - 1 else r + 1))"

text \<open>Decimal rendering of an integer, as a template literal prints it.\<close>

definition digit_char :: "nat \<Rightarrow> char" where
  "digit_char d = ''0123456789'' ! d"

fun show_nat :: "nat \<Rightarrow> string" where
  "show_nat n = (if n < 10 then [digit_char n] else show_nat (n div 10) @ [digit_char (n mod 10)])"

declare show_nat.simps [simp del]

definition show_int :: "int \<Rightarrow> string" where
  "show_int i = (if i < 0 then CHR ''-'' # show_nat (nat (- i)) else show_nat (nat i))"

text \<open>
  A template literal that interpolates a \<open>number\<close> is kept as its sequence of pieces,
  the interpolated number unrendered.
\<close>

datatype piece = Lit string | Num real


section \<open>Fitness tools\<close>

datatype Equipment = Barbell | Dumbbell | Cable | Machine | Bodyweight | Kettlebell | Ez_bar

subsection \<open>Estimated one-rep-max (Epley)\<close>

definition calculateEstimated1RM :: "real \<Rightarrow> real \<Rightarrow> real" where
  "calculateEstimated1RM weight reps =
     (if reps = 1 then weight
      else of_int (Math_round (weight * (1 + reps / 30) * 10)) / 10)"

subsection \<open>Progression logic\<close>

record RepRange =
  rmin :: real
  rmax :: real

record Progression =
  weight :: real
  reps :: RepRange
  reasoning :: "piece list"
  trend :: string

definition getProgressionLogic :: "real \<Rightarrow> real \<Rightarrow> real \<Rightarrow> Equipment \<Rightarrow> Progression" where
  "getProgressionLogic lastWeight lastReps lastRPE equipment =
     (let increment = (if equipment = Barbell then 2.5 else 1.25) in
      if lastRPE \<le> 7 then
        \<lparr>weight = lastWeight + increment,
         reps = \<lparr>rmin = lastReps - 1, rmax = lastReps + 1\<rparr>,
         reasoning = [Lit ''RPE '', Num lastRPE,
                      Lit '' indicates room for progression. Increasing weight by '',
                      Num increment, Lit ''kg.''],
         trend = ''progressing''\<rparr>
      else if lastRPE = 8 then
        \<lparr>weight = lastWeight,
         reps = \<lparr>rmin = lastReps, rmax = lastReps + 2\<rparr>,
         reasoning = [Lit ''RPE 8 is ideal. Try to add 1-2 reps before increasing weight.''],
         trend = ''progressing''\<rparr>
      else if lastRPE = 9 then
        \<lparr>weight = lastWeight,
         reps = \<lparr>rmin = lastReps - 1, rmax = lastReps\<rparr>,
         reasoning = [Lit ''RPE 9 is challenging. Maintain current weight and aim for consistency.''],
         trend = ''plateau''\<rparr>
      else
        \<lparr>weight = lastWeight * 0.9,
         reps = \<lparr>rmin = lastReps, rmax = lastReps + 2\<rparr>,
         reasoning = [Lit ''RPE '', Num lastRPE,
                      Lit '' indicates fatigue. Reducing weight by 10% for recovery.''],
         trend = ''deload_needed''\<rparr>)"

subsection \<open>Effort interpreter\<close>

text \<open>
  \<open>desc.match(/(\d+)\s*more/)\<close>: the leftmost place where a run of digits, optional
  white space and the word \<open>more\<close> follow one another; the result is the digit run.
  A run of digits that is not the longest one at its place is followed by a digit, which
  is neither white space nor \<open>m\<close>, so only the longest run can match.
\<close>

fun match_more :: "string \<Rightarrow> string option" where
  "match_more [] = None"
| "match_more (c # cs) =
     (if is_digit c \<and>
         startsWith (dropWhile is_space (dropWhile is_digit (c # cs))) ''more''
      then Some (takeWhile is_digit (c # cs))
      else match_more cs)"

text \<open>\<open>parseInt\<close> of a non-empty string of decimal digits.\<close>

definition digit_val :: "char \<Rightarrow> int" where
  "digit_val c = indexOf ''0123456789'' c"

definition parseInt :: "string \<Rightarrow> int" where
  "parseInt ds = foldl (\<lambda>acc c. 10 * acc + digit_val c) 0 ds"

record Effort =
  rpe :: int
  effort_reasoning :: string
  originalDescription :: string

definition interpret_effort :: "string \<Rightarrow> Effort" where
  "interpret_effort description =
     (let desc = toLowerCase description in
      if includes_str desc ''easy'' \<or> includes_str desc ''warm-up'' \<or> includes_str desc ''leicht'' then
        \<lparr>rpe = 5,
         effort_reasoning = ''Easy/warm-up effort indicates low intensity'',
         originalDescription = description\<rparr>
      else if includes_str desc ''could do'' \<and> includes_str desc ''more'' then
        (let moreMatch = match_more desc;
             repsInReserve = (case moreMatch of Some ds \<Rightarrow> parseInt ds | None \<Rightarrow> 3);
             r = 10 - repsInReserve
         in \<lparr>rpe = r,
             effort_reasoning =
               show_int repsInReserve @ '' reps in reserve translates to RPE '' @ show_int r,
             originalDescription = description\<rparr>)
      else if includes_str desc ''good'' \<or> includes_str desc ''solid'' \<or> includes_str desc ''gut'' then
        \<lparr>rpe = 7,
         effort_reasoning = ''Good/solid effort typically indicates RPE 7-8'',
         originalDescription = description\<rparr>
      else if includes_str desc ''hard'' \<or> includes_str desc ''tough'' \<or> includes_str desc ''schwer'' then
        \<lparr>rpe = 8,
         effort_reasoning = ''Hard/tough effort indicates RPE 8-9'',
         originalDescription = description\<rparr>
      else if includes_str desc ''grind'' \<or> includes_str desc ''struggle'' \<or> includes_str desc ''max'' then
        \<lparr>rpe = 9,
         effort_reasoning = ''Grinding/struggling indicates near-maximal effort'',
         originalDescription = description\<rparr>
      else if includes_str desc ''fail'' \<or> includes_str desc (''couldn'' @ [CHR 0x27] @ ''t'') then
        \<lparr>rpe = 10,
         effort_reasoning = ''Failure or inability to complete indicates RPE 10'',
         originalDescription = description\<rparr>
      else
        \<lparr>rpe = 7,
         effort_reasoning = ''Defaulting to moderate effort (RPE 7) based on description'',
         originalDescription = description\<rparr>)"


section \<open>Plan tools\<close>

datatype WorkoutType = Push | Pull | Legs | Torso | Limbs | Upper | Lower | Full_body | Custom

fun workoutType_str :: "WorkoutType \<Rightarrow> string" where
  "workoutType_str Push = ''push''"
| "workoutType_str Pull = ''pull''"
| "workoutType_str Legs = ''legs''"
| "workoutType_str Torso = ''torso''"
| "workoutType_str Limbs = ''limbs''"
| "workoutType_str Upper = ''upper''"
| "workoutType_str Lower = ''lower''"
| "workoutType_str Full_body = ''full_body''"
| "workoutType_str Custom = ''custom''"

record SplitTemplate =
  template_days :: nat
  "structure" :: "WorkoutType list"

definition SPLIT_TEMPLATES :: "string \<rightharpoonup> SplitTemplate" where
  "SPLIT_TEMPLATES = map_of
     [(''ppl'', \<lparr>template_days = 6, structure = [Push, Pull, Legs, Push, Pull, Legs]\<rparr>),
      (''ppl_3'', \<lparr>template_days = 3, structure = [Push, Pull, Legs]\<rparr>),
      (''upper_lower'', \<lparr>template_days = 4, structure = [Upper, Lower, Upper, Lower]\<rparr>),
      (''torso_limbs'', \<lparr>template_days = 4, structure = [Torso, Limbs, Torso, Limbs]\<rparr>),
      (''full_body'', \<lparr>template_days = 3, structure = [Full_body, Full_body, Full_body]\<rparr>),
      (''bro_split'', \<lparr>template_days = 5, structure = [Push, Pull, Legs, Upper, Lower]\<rparr>)]"

text \<open>
  \<open>SPLIT_TEMPLATES\<close> is a plain object, so \<open>SPLIT_TEMPLATES[tag]\<close> also finds the members
  every object inherits from \<open>Object.prototype\<close> (of the standard, unmodified environment).
  Such a member is a function, or for \<open>__proto__\<close> the prototype object: it is truthy, so
  the fallback \<open>|| SPLIT_TEMPLATES['ppl_3']\<close> is not taken, and it has no \<open>structure\<close>.
  A tag that is no member at all reads as \<open>undefined\<close> (\<open>None\<close>).
\<close>

definition Object_prototype_names :: "string list" where
  "Object_prototype_names =
     [''constructor'', ''hasOwnProperty'', ''isPrototypeOf'', ''propertyIsEnumerable'',
      ''toLocaleString'', ''toString'', ''valueOf'', ''__proto__'', ''__defineGetter__'',
      ''__defineSetter__'', ''__lookupGetter__'', ''__lookupSetter__'']"

datatype Member = Own SplitTemplate | Inherited

definition SPLIT_TEMPLATES_get :: "string \<Rightarrow> Member option" where
  "SPLIT_TEMPLATES_get tag =
     (case SPLIT_TEMPLATES tag of
        Some t \<Rightarrow> Some (Own t)
      | None \<Rightarrow> (if tag \<in> set Object_prototype_names then Some Inherited else None))"

text \<open>The exception the plan generator can raise.\<close>

datatype error = TypeError

fun EXERCISE_RECOMMENDATIONS :: "WorkoutType \<Rightarrow> string list" where
  "EXERCISE_RECOMMENDATIONS Push =
     [''Bench Press'', ''Overhead Press'', ''Incline Dumbbell Press'', ''Dips'',
      ''Lateral Raises'', ''Tricep Pushdowns'']"
| "EXERCISE_RECOMMENDATIONS Pull =
     [''Deadlift'', ''Barbell Row'', ''Pull-Ups'', ''Face Pulls'', ''Barbell Curls'',
      ''Hammer Curls'']"
| "EXERCISE_RECOMMENDATIONS Legs =
     [''Squat'', ''Romanian Deadlift'', ''Leg Press'', ''Leg Curl'', ''Calf Raises'',
      ''Lunges'']"
| "EXERCISE_RECOMMENDATIONS Torso =
     [''Bench Press'', ''Barbell Row'', ''Overhead Press'', ''Pull-Ups'', ''Dumbbell Flyes'',
      ''Face Pulls'']"
| "EXERCISE_RECOMMENDATIONS Limbs =
     [''Squat'', ''Romanian Deadlift'', ''Barbell Curls'', ''Tricep Extensions'',
      ''Lateral Raises'', ''Calf Raises'']"
| "EXERCISE_RECOMMENDATIONS Upper =
     [''Bench Press'', ''Barbell Row'', ''Overhead Press'', ''Pull-Ups'', ''Bicep Curls'',
      ''Tricep Extensions'']"
| "EXERCISE_RECOMMENDATIONS Lower =
     [''Squat'', ''Romanian Deadlift'', ''Leg Press'', ''Leg Curl'', ''Calf Raises'',
      ''Hip Thrusts'']"
| "EXERCISE_RECOMMENDATIONS Full_body =
     [''Squat'', ''Bench Press'', ''Barbell Row'', ''Overhead Press'', ''Romanian Deadlift'',
      ''Pull-Ups'']"
| "EXERCISE_RECOMMENDATIONS Custom = []"

subsection \<open>Plan generator\<close>

record PlanExercise =
  exerciseId :: string
  order :: nat
  targetSets :: nat
  targetRepsMin :: nat
  targetRepsMax :: nat
  ex_notes :: "string option"

record PlanDay =
  dayNumber :: nat
  name :: string
  workoutType :: WorkoutType
  exercises :: "PlanExercise list"

record TrainingPlan =
  plan_id :: string
  plan_name :: string
  daysPerWeek :: nat
  splitType :: string
  days :: "PlanDay list"

datatype PlanGoal = Goal_hypertrophy | Goal_strength | Goal_endurance

record RepConfig =
  cfg_min :: nat
  cfg_max :: nat
  cfg_sets :: nat

fun repRanges :: "PlanGoal \<Rightarrow> RepConfig" where
  "repRanges Goal_hypertrophy = \<lparr>cfg_min = 8, cfg_max = 12, cfg_sets = 4\<rparr>"
| "repRanges Goal_strength = \<lparr>cfg_min = 3, cfg_max = 6, cfg_sets = 5\<rparr>"
| "repRanges Goal_endurance = \<lparr>cfg_min = 12, cfg_max = 20, cfg_sets = 3\<rparr>"

text \<open>\<open>s.replace('_', ' ')\<close> with a string pattern replaces the first occurrence only.\<close>

fun replace_first :: "char \<Rightarrow> char \<Rightarrow> string \<Rightarrow> string" where
  "replace_first a b [] = []"
| "replace_first a b (c # cs) = (if c = a then b # cs else c # replace_first a b cs)"

text \<open>
  \<open>s.replace(/\s+/g, '-')\<close>: every maximal run of white space becomes one hyphen. The
  flag tells whether the previous character was white space.
\<close>

fun replace_spaces :: "bool \<Rightarrow> string \<Rightarrow> string" where
  "replace_spaces inrun [] = []"
| "replace_spaces inrun (c # cs) =
     (if is_space c then (if inrun then replace_spaces True cs
                          else CHR ''-'' # replace_spaces True cs)
      else c # replace_spaces False cs)"

definition day_name :: "WorkoutType \<Rightarrow> string" where
  "day_name wt =
     (let w = workoutType_str wt
      in toUpperCase (take 1 w) @ replace_first (CHR ''_'') (CHR '' '') (drop 1 w) @ '' Day'')"

definition plan_exercise :: "RepConfig \<Rightarrow> nat \<times> string \<Rightarrow> PlanExercise" where
  "plan_exercise repConfig p =
     (case p of (idx, nm) \<Rightarrow>
        \<lparr>exerciseId = ''exercise-'' @ replace_spaces False (toLowerCase nm),
         order = idx + 1,
         targetSets = cfg_sets repConfig,
         targetRepsMin = cfg_min repConfig,
         targetRepsMax = cfg_max repConfig,
         ex_notes = None\<rparr>)"

text \<open>
  \<open>generatePlan\<close> reads the clock for the plan's id (\<open>Date.now()\<close>); the reading is the
  first argument \<open>now\<close> of the model. An unknown split tag falls back to \<open>ppl_3\<close>, which
  the table holds. When the looked-up member is an inherited one, \<open>template.structure\<close>
  is \<open>undefined\<close> and the loop condition \<open>template.structure.length\<close> throws a
  \<open>TypeError\<close> before any day is built.
\<close>

definition generatePlan ::
  "nat \<Rightarrow> string \<Rightarrow> string \<Rightarrow> nat \<Rightarrow> PlanGoal \<Rightarrow> bool \<Rightarrow> error + TrainingPlan" where
  "generatePlan now nm split dpw goal includeCardio =
     (let template =
            (case SPLIT_TEMPLATES_get split of
               Some m \<Rightarrow> Some m
             | None \<Rightarrow> SPLIT_TEMPLATES_get ''ppl_3'')
      in case template of
           Some (Own t) \<Rightarrow>
             (let repConfig = repRanges goal;
                  ds = map (\<lambda>i.
                         let wt = structure t ! i;
                             exs = EXERCISE_RECOMMENDATIONS wt
                         in \<lparr>dayNumber = i + 1,
                             name = day_name wt,
                             workoutType = wt,
                             exercises =
                               map (plan_exercise repConfig) (enumerate 0 (take 6 exs))\<rparr>)
                       [0 ..< min dpw (length (structure t))];
                  ds' = (if includeCardio \<and> dpw > length ds
                         then ds @ [\<lparr>dayNumber = length ds + 1,
                                     name = ''Easy Run'',
                                     workoutType = Custom,
                                     exercises =
                                       [\<lparr>exerciseId = ''cardio-easy-run'',
                                         order = 1,
                                         targetSets = 1,
                                         targetRepsMin = 20,
                                         targetRepsMax = 40,
                                         ex_notes = Some ''20-40 minutes Zone 2 running''\<rparr>]\<rparr>]
                         else ds)
              in Inr \<lparr>plan_id = ''plan-'' @ show_nat now,
                      plan_name = nm,
                      daysPerWeek = dpw,
                      splitType = split,
                      days = ds'\<rparr>)
         | Some Inherited \<Rightarrow> Inl TypeError
         | None \<Rightarrow> Inl TypeError)"

subsection \<open>Periodization calculator\<close>

datatype BlockGoal = Hypertrophy | Strength | Peaking

record Phase =
  week :: nat
  phase :: string
  intensity :: string
  volume :: string
  phase_notes :: string

text \<open>
  The phases the tool builds; its reply carries them with the arguments and a count of
  the phase labels. \<open>Math.floor(totalWeeks * 0.5)\<close>, \<open>Math.floor(totalWeeks * 0.35)\<close> and
  \<open>Math.floor(totalWeeks * 0.4)\<close> are integer divisions of a whole \<open>totalWeeks\<close>. The
  source also computes \<open>deloadWeeks\<close> in the hypertrophy branch and never reads it.
\<close>

definition calculate_periodization :: "nat \<Rightarrow> BlockGoal \<Rightarrow> bool \<Rightarrow> Phase list" where
  "calculate_periodization totalWeeks goal includeDeload =
     (case goal of
        Hypertrophy \<Rightarrow>
          (let accumWeeks = totalWeeks div 2;
               intensWeeks = (totalWeeks * 35) div 100
           in map (\<lambda>w. \<lparr>week = w, phase = ''Accumulation'', intensity = ''65-75% 1RM'',
                         volume = ''High (15-20 sets/muscle)'',
                         phase_notes = ''Focus on volume, RPE 7-8''\<rparr>)
                [1 ..< accumWeeks + 1]
              @ map (\<lambda>w. \<lparr>week = w, phase = ''Intensification'', intensity = ''75-85% 1RM'',
                           volume = ''Moderate (12-16 sets/muscle)'',
                           phase_notes = ''Increase weight, RPE 8-9''\<rparr>)
                  [accumWeeks + 1 ..< accumWeeks + intensWeeks + 1]
              @ (if includeDeload
                 then map (\<lambda>w. \<lparr>week = w, phase = ''Deload'', intensity = ''50-60% 1RM'',
                                 volume = ''Low (8-10 sets/muscle)'',
                                 phase_notes = ''Recovery focus, RPE 5-6''\<rparr>)
                        [accumWeeks + intensWeeks + 1 ..< totalWeeks + 1]
                 else []))
      | Strength \<Rightarrow>
          (let volWeeks = (totalWeeks * 4) div 10;
               strWeeks = (totalWeeks * 4) div 10
           in map (\<lambda>w. \<lparr>week = w, phase = ''Volume'', intensity = ''70-80% 1RM'',
                         volume = ''High (5x5-8)'',
                         phase_notes = ''Build work capacity''\<rparr>)
                [1 ..< volWeeks + 1]
              @ map (\<lambda>w. \<lparr>week = w, phase = ''Strength'', intensity = ''80-90% 1RM'',
                           volume = ''Moderate (5x3-5)'',
                           phase_notes = ''Progressive overload focus''\<rparr>)
                  [volWeeks + 1 ..< volWeeks + strWeeks + 1]
              @ map (\<lambda>w. \<lparr>week = w,
                           phase = (if includeDeload \<and> w = totalWeeks then ''Deload''
                                    else ''Peaking''),
                           intensity = (if includeDeload \<and> w = totalWeeks then ''60% 1RM''
                                        else ''90-95% 1RM''),
                           volume = ''Low (3x1-3)'',
                           phase_notes = (if includeDeload \<and> w = totalWeeks
                                          then ''Active recovery'' else ''Test new maxes'')\<rparr>)
                  [volWeeks + strWeeks + 1 ..< totalWeeks + 1])
      | Peaking \<Rightarrow>
          map (\<lambda>w. let isDeload = (includeDeload \<and> w mod 4 = 0)
                   in \<lparr>week = w,
                       phase = (if isDeload then ''Deload'' else ''Week '' @ show_nat w),
                       intensity = (if isDeload then ''60% 1RM''
                                    else show_nat (80 + min (w * 2) 15) @ ''% 1RM''),
                       volume = (if isDeload then ''Low'' else ''Moderate''),
                       phase_notes = (if isDeload then ''Recovery'' else ''Building to peak'')\<rparr>)
            [1 ..< totalWeeks + 1])"

subsection \<open>Hybrid schedule optimizer\<close>

datatype CardioType = Running | Cycling | Swimming | Mixed

fun cardioType_str :: "CardioType \<Rightarrow> string" where
  "cardioType_str Running = ''running''"
| "cardioType_str Cycling = ''cycling''"
| "cardioType_str Swimming = ''swimming''"
| "cardioType_str Mixed = ''mixed''"

datatype Priority = Prio_strength | Prio_cardio | Prio_balanced

record Slot =
  day :: string
  activity :: string
  slot_notes :: string

definition weekDays :: "string list" where
  "weekDays = [''Monday'', ''Tuesday'', ''Wednesday'', ''Thursday'', ''Friday'', ''Saturday'',
               ''Sunday'']"

text \<open>Day indices are integers: the cardio-first loop looks at index \<open>i - 1\<close> from \<open>i = 0\<close>.\<close>

definition strengthSchedule :: "nat \<Rightarrow> int list" where
  "strengthSchedule strengthDays =
     (if strengthDays = 4 then [0, 2, 4, 5]
      else if strengthDays = 3 then [0, 2, 4]
      else [0, 3])"

definition strength_slot :: "nat \<Rightarrow> nat \<times> int \<Rightarrow> Slot" where
  "strength_slot strengthDays p =
     (case p of (i, dayIdx) \<Rightarrow>
        (let isLegDay = (i mod 2 = (if strengthDays > 2 then 0 else 1))
         in \<lparr>day = weekDays ! nat dayIdx,
             activity = (if isLegDay then ''Lower Body'' else ''Upper Body''),
             slot_notes = ''Full strength session''\<rparr>))"

definition cardio_slot :: "nat \<Rightarrow> CardioType \<Rightarrow> Priority \<Rightarrow> int \<Rightarrow> Slot" where
  "cardio_slot strengthDays cardioType prioritize i =
     (let nextDayIsLegs =
            list_ex (\<lambda>(idx, s). s = (i + 1) mod 7 \<and> idx mod 2 = 0)
              (enumerate 0 (strengthSchedule strengthDays));
          isEasyCardio = (nextDayIsLegs \<or> prioritize = Prio_strength)
      in \<lparr>day = weekDays ! nat i,
          activity = (if isEasyCardio then ''Easy Cardio'' else ''Quality Cardio''),
          slot_notes = (if isEasyCardio
                        then ''Zone 2 '' @ cardioType_str cardioType @ '', 30-40 min''
                        else ''Intervals or tempo '' @ cardioType_str cardioType
                             @ '', 20-30 min'')\<rparr>)"

text \<open>
  The loop \<open>for (let i = 0; i < 7 && cardioAdded < args.cardioDays; i++)\<close> of the
  strength-first branch, from the state \<open>(i, cardioAdded, schedule)\<close>.
\<close>

function add_cardio ::
  "nat \<Rightarrow> nat \<Rightarrow> CardioType \<Rightarrow> Priority \<Rightarrow> int \<Rightarrow> nat \<Rightarrow> Slot list \<Rightarrow> Slot list" where
  "add_cardio strengthDays cardioDays cardioType prioritize i cardioAdded schedule =
     (if i < 7 \<and> cardioAdded < cardioDays then
        (if i \<notin> set (strengthSchedule strengthDays) then
           add_cardio strengthDays cardioDays cardioType prioritize (i + 1) (cardioAdded + 1)
             (schedule @ [cardio_slot strengthDays cardioType prioritize i])
         else
           add_cardio strengthDays cardioDays cardioType prioritize (i + 1) cardioAdded schedule)
      else schedule)"
  by pat_completeness auto
termination
  by (relation "measure (\<lambda>(sd, cd, ct, pr, i, added, sched). nat (7 - i))") auto

text \<open>The cardio days of the cardio-first branch (the source's local \<open>cardioDays\<close>).\<close>

definition cardioPattern :: "nat \<Rightarrow> int list" where
  "cardioPattern cardioDays = (if cardioDays = 3 then [1, 3, 5] else [1, 4])"

definition main_cardio_slot :: "CardioType \<Rightarrow> int \<Rightarrow> Slot" where
  "main_cardio_slot cardioType dayIdx =
     \<lparr>day = weekDays ! nat dayIdx,
      activity = ''Quality Cardio'',
      slot_notes = ''Main '' @ cardioType_str cardioType @ '' session''\<rparr>"

text \<open>
  The loop \<open>for (let i = 0; i < 7 && strengthAdded < args.strengthDays; i++)\<close> of the
  cardio-first branch, from the state \<open>(i, strengthAdded, schedule)\<close>.
\<close>

function add_strength :: "nat \<Rightarrow> int list \<Rightarrow> int \<Rightarrow> nat \<Rightarrow> Slot list \<Rightarrow> Slot list" where
  "add_strength strengthDays cardioSet i strengthAdded schedule =
     (if i < 7 \<and> strengthAdded < strengthDays then
        (if i \<notin> set cardioSet \<and> i - 1 \<notin> set cardioSet then
           add_strength strengthDays cardioSet (i + 1) (strengthAdded + 1)
             (schedule @ [\<lparr>day = weekDays ! nat i,
                           activity = (if strengthAdded mod 2 = 0 then ''Upper Body''
                                       else ''Lower Body''),
                           slot_notes = ''Strength session''\<rparr>])
         else
           add_strength strengthDays cardioSet (i + 1) strengthAdded schedule)
      else schedule)"
  by pat_completeness auto
termination
  by (relation "measure (\<lambda>(sd, cs, i, added, sched). nat (7 - i))") auto

text \<open>The sessions either strategy places, in insertion order.\<close>

definition place_sessions :: "nat \<Rightarrow> nat \<Rightarrow> CardioType \<Rightarrow> Priority \<Rightarrow> Slot list" where
  "place_sessions strengthDays cardioDays cardioType prioritize =
     (if prioritize = Prio_strength \<or> prioritize = Prio_balanced then
        add_cardio strengthDays cardioDays cardioType prioritize 0 0
          (map (strength_slot strengthDays) (enumerate 0 (strengthSchedule strengthDays)))
      else
        add_strength strengthDays (cardioPattern cardioDays) 0 0
          (map (main_cardio_slot cardioType) (cardioPattern cardioDays)))"

text \<open>
  \<open>schedule.sort((a, b) => weekDays.indexOf(a.day) - weekDays.indexOf(b.day))\<close>: a stable
  sort on the weekday's position.
\<close>

definition sort_by_day :: "Slot list \<Rightarrow> Slot list" where
  "sort_by_day schedule = sort_key (\<lambda>s. indexOf weekDays (day s)) schedule"

definition add_rest_days :: "Slot list \<Rightarrow> Slot list" where
  "add_rest_days schedule =
     schedule @
     map (\<lambda>d. \<lparr>day = d, activity = ''Rest'', slot_notes = ''Recovery day''\<rparr>)
       (filter (\<lambda>d. d \<notin> set (map day schedule)) weekDays)"

definition optimize_hybrid_schedule ::
  "nat \<Rightarrow> nat \<Rightarrow> CardioType \<Rightarrow> Priority \<Rightarrow> Slot list" where
  "optimize_hybrid_schedule strengthDays cardioDays cardioType prioritize =
     sort_by_day (add_rest_days (sort_by_day
       (place_sessions strengthDays cardioDays cardioType prioritize)))"


section \<open>The tools as the servers expose them\<close>

text \<open>
  The two servers register their tools by name and the runtime calls the handler of the
  tool it is asked for. A call is the tool with its arguments; the environment of a call
  is what a handler can read besides them, which is the clock. The result is what the
  handler computes, before it is rendered as JSON text.
\<close>

record Env =
  clock :: nat

datatype ToolCall =
    Get_progression real real real Equipment
  | Log_set real real
  | Interpret_effort string
  | Generate_plan string string nat PlanGoal bool
  | Calculate_periodization nat BlockGoal bool
  | Optimize_hybrid_schedule nat nat CardioType Priority

datatype ToolResult =
    Progression_result Progression
  | Estimate_result real
  | Effort_result Effort
  | Plan_result "error + TrainingPlan"
  | Phases_result "Phase list"
  | Schedule_result "Slot list"

fun invoke :: "Env \<Rightarrow> ToolCall \<Rightarrow> ToolResult" where
  "invoke env (Get_progression lastWeight lastReps lastRPE equipment) =
     Progression_result (getProgressionLogic lastWeight lastReps lastRPE equipment)"
| "invoke env (Log_set w r) = Estimate_result (calculateEstimated1RM w r)"
| "invoke env (Interpret_effort description) = Effort_result (interpret_effort description)"
| "invoke env (Generate_plan nm split dpw goal includeCardio) =
     Plan_result (generatePlan (clock env) nm split dpw goal includeCardio)"
| "invoke env (Calculate_periodization totalWeeks goal includeDeload) =
     Phases_result (calculate_periodization totalWeeks goal includeDeload)"
| "invoke env (Optimize_hybrid_schedule strengthDays cardioDays cardioType prioritize) =
     Schedule_result (optimize_hybrid_schedule strengthDays cardioDays cardioType prioritize)"


section \<open>Notions used to state the properties\<close>

text \<open>The entry the final pass gives a weekday that no strategy touched.\<close>

definition rest_slot :: "string \<Rightarrow> Slot" where
  "rest_slot d = \<lparr>day = d, activity = ''Rest'', slot_notes = ''Recovery day''\<rparr>"

text \<open>The entry of weekday \<open>d\<close>: the first placed session on that day, or a rest entry.\<close>

definition slot_for :: "Slot list \<Rightarrow> string \<Rightarrow> Slot" where
  "slot_for placed d =
     (case find (\<lambda>s. day s = d) placed of Some s \<Rightarrow> s | None \<Rightarrow> rest_slot d)"

definition is_strength :: "Slot \<Rightarrow> bool" where
  "is_strength s = (activity s = ''Upper Body'' \<or> activity s = ''Lower Body'')"

definition is_cardio :: "Slot \<Rightarrow> bool" where
  "is_cardio s = (activity s = ''Easy Cardio'' \<or> activity s = ''Quality Cardio'')"

definition is_easy :: "CardioType \<Rightarrow> Slot \<Rightarrow> bool" where
  "is_easy cardioType s =
     (activity s = ''Easy Cardio'' \<and>
      slot_notes s = ''Zone 2 '' @ cardioType_str cardioType @ '', 30-40 min'')"

definition is_quality :: "CardioType \<Rightarrow> Slot \<Rightarrow> bool" where
  "is_quality cardioType s =
     (activity s = ''Quality Cardio'' \<and>
      slot_notes s = ''Intervals or tempo '' @ cardioType_str cardioType @ '', 20-30 min'')"


section \<open>Properties of the fitness tools\<close>

subsection \<open>Rounding\<close>

lemma Math_round_mono: "x \<le> y \<Longrightarrow> Math_round x \<le> Math_round y"
  by (simp add: Math_round_def floor_mono)

lemma Math_round_step: "x + 1 \<le> y \<Longrightarrow> Math_round x < Math_round y"
  unfolding Math_round_def by linarith

lemma Math_round_lower: "x - 1 / 2 < of_int (Math_round x)"
  unfolding Math_round_def by linarith

lemma estimate_from_two:
  assumes "2 \<le> (r::nat)"
  shows "calculateEstimated1RM w (real r) = of_int (Math_round (w * (1 + real r / 30) * 10)) / 10"
  using assms by (simp add: calculateEstimated1RM_def)

lemma estimate_lower_bound:
  assumes "0 < w" "2 \<le> (r::nat)"
  shows "w + w / 15 - 1 / 20 < calculateEstimated1RM w (real r)"
proof -
  define x where "x = w * (1 + real r / 30) * 10"
  have "w * 2 \<le> w * real r"
    using assms by (intro mult_left_mono) auto
  then have a: "10 * w + 2 * w / 3 \<le> x"
    by (simp add: x_def algebra_simps)
  have b: "x - 1 / 2 < of_int (Math_round x)"
    by (rule Math_round_lower)
  have c: "calculateEstimated1RM w (real r) = of_int (Math_round x) / 10"
    using assms by (simp add: estimate_from_two x_def)
  show ?thesis
    unfolding c using a b by linarith
qed

lemma estimate_mono_from_two:
  assumes "0 < w" "2 \<le> (r::nat)" "r \<le> r'"
  shows "calculateEstimated1RM w (real r) \<le> calculateEstimated1RM w (real r')"
proof -
  have "w * real r \<le> w * real r'"
    using assms by (intro mult_left_mono) auto
  then have "w * (1 + real r / 30) * 10 \<le> w * (1 + real r' / 30) * 10"
    by (simp add: algebra_simps)
  then have "Math_round (w * (1 + real r / 30) * 10) \<le> Math_round (w * (1 + real r' / 30) * 10)"
    by (rule Math_round_mono)
  then show ?thesis
    using assms by (simp add: estimate_from_two divide_right_mono)
qed

lemma estimate_strict_from_two:
  assumes "3 \<le> w" "2 \<le> (r::nat)" "r < r'"
  shows "calculateEstimated1RM w (real r) < calculateEstimated1RM w (real r')"
proof -
  have "real r + 1 \<le> real r'"
    using assms by linarith
  then have "w * (real r + 1) \<le> w * real r'"
    using assms by (intro mult_left_mono) auto
  then have "w * real r + 3 \<le> w * real r'"
    using assms by (simp add: algebra_simps)
  then have "w * (1 + real r / 30) * 10 + 1 \<le> w * (1 + real r' / 30) * 10"
    by (simp add: algebra_simps)
  then have "Math_round (w * (1 + real r / 30) * 10) < Math_round (w * (1 + real r' / 30) * 10)"
    by (rule Math_round_step)
  then show ?thesis
    using assms by (simp add: estimate_from_two divide_strict_right_mono)
qed

subsection \<open>Progression engine\<close>

text \<open>
  Claim C7. With an exertion of at most 7 the recommended weight is the last weight plus
  the equipment's increment (2.5 for a barbell, 1.25 for every other kind), so it is
  strictly above the last weight; the rep range is \<open>[lastReps - 1, lastReps + 1]\<close> and the
  trend is \<open>progressing\<close>.
\<close>

theorem progression_easy_band:
  assumes "lastRPE \<le> 7"
  shows "weight (getProgressionLogic lastWeight lastReps lastRPE equipment)
           = lastWeight + (if equipment = Barbell then 2.5 else 1.25)
       \<and> lastWeight < weight (getProgressionLogic lastWeight lastReps lastRPE equipment)
       \<and> reps (getProgressionLogic lastWeight lastReps lastRPE equipment)
           = \<lparr>rmin = lastReps - 1, rmax = lastReps + 1\<rparr>
       \<and> trend (getProgressionLogic lastWeight lastReps lastRPE equipment) = ''progressing''"
  using assms by (simp add: getProgressionLogic_def Let_def)

theorem progression_easy_band_witness:
  "(6::real) \<le> 7
   \<and> weight (getProgressionLogic 80 8 6 Dumbbell) = 80 + 1.25
   \<and> 80 < weight (getProgressionLogic 80 8 6 Dumbbell)
   \<and> reps (getProgressionLogic 80 8 6 Dumbbell) = \<lparr>rmin = 8 - 1, rmax = 8 + 1\<rparr>
   \<and> trend (getProgressionLogic 80 8 6 Dumbbell) = ''progressing''"
  using progression_easy_band [of 6 80 8 Dumbbell] by simp

text \<open>
  Claim C3, as amended. With an exertion of at least 10 the recommended weight is exactly
  \<open>lastWeight * 0.9\<close>, with no rounding; the rep range is \<open>[lastReps, lastReps + 2]\<close> and
  the trend is \<open>deload_needed\<close>.
\<close>

theorem progression_deload_band:
  assumes "10 \<le> lastRPE"
  shows "weight (getProgressionLogic lastWeight lastReps lastRPE equipment) = lastWeight * 0.9
       \<and> reps (getProgressionLogic lastWeight lastReps lastRPE equipment)
           = \<lparr>rmin = lastReps, rmax = lastReps + 2\<rparr>
       \<and> trend (getProgressionLogic lastWeight lastReps lastRPE equipment) = ''deload_needed''"
  using assms by (simp add: getProgressionLogic_def Let_def)

theorem progression_deload_band_witness:
  "(10::real) \<le> 10
   \<and> weight (getProgressionLogic 12.5 5 10 Barbell) = 12.5 * 0.9
   \<and> reps (getProgressionLogic 12.5 5 10 Barbell) = \<lparr>rmin = 5, rmax = 5 + 2\<rparr>
   \<and> trend (getProgressionLogic 12.5 5 10 Barbell) = ''deload_needed''"
  using progression_deload_band [of 10 "12.5" 5 Barbell] by simp

text \<open>
  Claim C3 as stated fails: after 12.5 kg for 5 reps at exertion 10 the recommendation
  is 11.25 kg, which is not 12.5 * 0.9 rounded to one decimal place (11.3).
\<close>

theorem progression_deload_not_rounded:
  "weight (getProgressionLogic 12.5 5 10 Barbell) = 11.25
   \<and> real_of_int (Math_round (12.5 * 0.9 * 10)) / 10 = 11.3
   \<and> weight (getProgressionLogic 12.5 5 10 Barbell)
       \<noteq> real_of_int (Math_round (12.5 * 0.9 * 10)) / 10"
  by (simp add: getProgressionLogic_def Let_def Math_round_def)

subsection \<open>One-rep-max estimator\<close>

text \<open>
  Claim C4, as amended. For every weight \<open>w > 0\<close> the estimate at one rep is \<open>w\<close>; from
  two reps on the estimate never decreases as the reps grow; and for \<open>w \<ge> 3\<close> it is
  strictly increasing in the reps from one rep on.
\<close>

theorem estimate1RM_in_reps:
  assumes "0 < w" "1 \<le> (r::nat)" "r < r'"
  shows "calculateEstimated1RM w 1 = w
       \<and> (2 \<le> r \<longrightarrow> calculateEstimated1RM w (real r) \<le> calculateEstimated1RM w (real r'))
       \<and> (3 \<le> w \<longrightarrow> calculateEstimated1RM w (real r) < calculateEstimated1RM w (real r'))"
proof (intro conjI impI)
  show "calculateEstimated1RM w 1 = w"
    by (simp add: calculateEstimated1RM_def)
next
  assume "2 \<le> r"
  with assms show "calculateEstimated1RM w (real r) \<le> calculateEstimated1RM w (real r')"
    by (simp add: estimate_mono_from_two)
next
  assume w3: "3 \<le> w"
  show "calculateEstimated1RM w (real r) < calculateEstimated1RM w (real r')"
  proof (cases "r = 1")
    case True
    have "w + w / 15 - 1 / 20 < calculateEstimated1RM w (real r')"
      using assms True by (intro estimate_lower_bound) auto
    moreover have "calculateEstimated1RM w (real r) = w"
      using True by (simp add: calculateEstimated1RM_def)
    ultimately show ?thesis
      using w3 by simp
  next
    case False
    with assms have "2 \<le> r" by simp
    with w3 assms show ?thesis by (simp add: estimate_strict_from_two)
  qed
qed


theorem estimate1RM_in_reps_witness:
  "(0::real) < 100 \<and> (1::nat) \<le> 5 \<and> (5::nat) < 6 \<and> (2::nat) \<le> 5 \<and> (3::real) \<le> 100
   \<and> calculateEstimated1RM 100 1 = 100
   \<and> calculateEstimated1RM 100 (real (5::nat)) \<le> calculateEstimated1RM 100 (real (6::nat))
   \<and> calculateEstimated1RM 100 (real (5::nat)) < calculateEstimated1RM 100 (real (6::nat))"
  using estimate1RM_in_reps [of 100 5 6] by simp

text \<open>
  Claim C4 as stated fails: for a weight of 1 the estimates at 2 and at 3 reps are both
  1.1, since 1.0667 and 1.1 round to the same decimal.
\<close>

theorem estimate1RM_not_strict:
  "calculateEstimated1RM 1 2 = 1.1 \<and> calculateEstimated1RM 1 3 = 1.1
   \<and> \<not> calculateEstimated1RM 1 2 < calculateEstimated1RM 1 3"
  by (simp add: calculateEstimated1RM_def Math_round_def)

text \<open>
  Claim C9, as amended. For every weight \<open>w \<ge> 0.75\<close> and every whole number of reps from
  one on, the estimate is at least \<open>w\<close>; for every \<open>w > 0\<close> it is above \<open>w - 0.05\<close>.
\<close>

theorem estimate1RM_ge_weight:
  assumes "0 < w" "1 \<le> (r::nat)"
  shows "(3 / 4 \<le> w \<longrightarrow> w \<le> calculateEstimated1RM w (real r))
       \<and> w - 1 / 20 < calculateEstimated1RM w (real r)"
proof (cases "r = 1")
  case True
  then show ?thesis using assms by (simp add: calculateEstimated1RM_def)
next
  case False
  with assms have "2 \<le> r" by simp
  then have "w + w / 15 - 1 / 20 < calculateEstimated1RM w (real r)"
    using assms by (intro estimate_lower_bound) auto
  then show ?thesis using assms by auto
qed


theorem estimate1RM_ge_weight_witness:
  "(0::real) < 100 \<and> (1::nat) \<le> 5 \<and> (3::real) / 4 \<le> 100
   \<and> 100 \<le> calculateEstimated1RM 100 (real (5::nat))
   \<and> 100 - 1 / 20 < calculateEstimated1RM 100 (real (5::nat))"
  using estimate1RM_ge_weight [of 100 5] by simp

text \<open>
  Claim C9 as stated fails: a set of 2 reps with 0.14 kg is estimated at 0.1, below the
  weight lifted.
\<close>

theorem estimate1RM_below_weight:
  "calculateEstimated1RM 0.14 2 = 0.1 \<and> \<not> 0.14 \<le> calculateEstimated1RM 0.14 2"
  by (simp add: calculateEstimated1RM_def Math_round_def)

subsection \<open>Effort interpreter\<close>

text \<open>
  Claim C5 at the description \<open>could do 12 more\<close>: the interpreter subtracts the twelve
  reps in reserve from 10 and returns the exertion -2, outside the scale from 1 to 10.
\<close>

theorem interpret_effort_out_of_scale:
  "rpe (interpret_effort ''could do 12 more'') = - 2
   \<and> \<not> (1 \<le> rpe (interpret_effort ''could do 12 more'')
        \<and> rpe (interpret_effort ''could do 12 more'') \<le> 10)"
  by (simp add: interpret_effort_def toLowerCase_def lower_of_def is_digit_def is_space_def
      parseInt_def digit_val_def Let_def)


section \<open>Properties of the plan tools\<close>

subsection \<open>Plan generator\<close>

text \<open>The decimal rendering of the clock reading determines the reading.\<close>

lemma digit_char_inj: "a < 10 \<Longrightarrow> b < 10 \<Longrightarrow> digit_char a = digit_char b \<Longrightarrow> a = b"
  by (simp add: digit_char_def nth_eq_iff_index_eq)

lemma show_nat_small: "n < 10 \<Longrightarrow> show_nat n = [digit_char n]"
  by (subst show_nat.simps) simp

lemma show_nat_large:
  "\<not> n < 10 \<Longrightarrow> show_nat n = show_nat (n div 10) @ [digit_char (n mod 10)]"
  by (subst show_nat.simps) simp

lemma show_nat_nonempty: "show_nat n \<noteq> []"
  by (cases "n < 10") (simp_all add: show_nat_small show_nat_large)

lemma show_nat_inj: "show_nat n = show_nat m \<Longrightarrow> n = m"
proof (induction n arbitrary: m rule: show_nat.induct)
  case (1 n)
  show ?case
  proof (cases "n < 10")
    case n: True
    show ?thesis
    proof (cases "m < 10")
      case True
      with n "1.prems" show ?thesis
        by (simp add: show_nat_small digit_char_inj)
    next
      case False
      with n "1.prems" show ?thesis
        by (simp add: show_nat_small show_nat_large show_nat_nonempty [symmetric])
    qed
  next
    case n: False
    show ?thesis
    proof (cases "m < 10")
      case True
      with n "1.prems" show ?thesis
        by (simp add: show_nat_small show_nat_large show_nat_nonempty)
    next
      case False
      with n "1.prems" have eq: "show_nat (n div 10) = show_nat (m div 10)"
        and d: "digit_char (n mod 10) = digit_char (m mod 10)"
        by (simp_all add: show_nat_large)
      from n eq have "n div 10 = m div 10" by (rule "1.IH")
      moreover from d have "n mod 10 = m mod 10" by (simp add: digit_char_inj)
      ultimately show ?thesis by (metis div_mult_mod_eq)
    qed
  qed
qed

lemma generatePlan_throws:
  "split \<in> set Object_prototype_names \<Longrightarrow>
   generatePlan now nm split dpw goal includeCardio = Inl TypeError"
  by (auto simp: generatePlan_def SPLIT_TEMPLATES_get_def SPLIT_TEMPLATES_def
      Object_prototype_names_def)

lemma generatePlan_returns:
  "split \<notin> set Object_prototype_names \<Longrightarrow>
   \<exists>ds. \<forall>now. generatePlan now nm split dpw goal includeCardio =
     Inr \<lparr>plan_id = ''plan-'' @ show_nat now, plan_name = nm, daysPerWeek = dpw,
          splitType = split, days = ds\<rparr>"
  by (auto simp: generatePlan_def SPLIT_TEMPLATES_get_def SPLIT_TEMPLATES_def Let_def
      split: option.splits)

text \<open>
  Claim C8, as amended. Every tool but the plan generator returns the same result for the
  same arguments, whatever the clock reads. The plan generator, called twice with the
  same arguments for a split tag that names no inherited member of the table, returns
  two plans that agree on the name, the days per week, the split tag and the days; the
  id of each is \<open>plan-\<close> followed by the clock reading of its call, and the two plans are
  equal exactly when the two clock readings are. For a tag that names an inherited
  member both calls throw.
\<close>

theorem tools_deterministic_up_to_clock:
  "(case call of
      Generate_plan nm split dpw goal includeCardio \<Rightarrow>
        (if split \<in> set Object_prototype_names
         then invoke env1 (Generate_plan nm split dpw goal includeCardio) = Plan_result (Inl TypeError)
              \<and> invoke env2 (Generate_plan nm split dpw goal includeCardio) = Plan_result (Inl TypeError)
         else (\<exists>p1 p2.
                 invoke env1 (Generate_plan nm split dpw goal includeCardio) = Plan_result (Inr p1)
               \<and> invoke env2 (Generate_plan nm split dpw goal includeCardio) = Plan_result (Inr p2)
               \<and> plan_id p1 = ''plan-'' @ show_nat (clock env1)
               \<and> plan_id p2 = ''plan-'' @ show_nat (clock env2)
               \<and> plan_name p1 = plan_name p2
               \<and> daysPerWeek p1 = daysPerWeek p2
               \<and> splitType p1 = splitType p2
               \<and> days p1 = days p2
               \<and> (p1 = p2 \<longleftrightarrow> clock env1 = clock env2)))
    | _ \<Rightarrow> invoke env1 call = invoke env2 call)"
proof (cases call)
  case (Generate_plan nm split dpw goal includeCardio)
  show ?thesis
  proof (cases "split \<in> set Object_prototype_names")
    case True
    then show ?thesis
      by (simp add: Generate_plan generatePlan_throws)
  next
    case False
    then obtain ds where ds: "\<And>now. generatePlan now nm split dpw goal includeCardio =
        Inr \<lparr>plan_id = ''plan-'' @ show_nat now, plan_name = nm, daysPerWeek = dpw,
             splitType = split, days = ds\<rparr>"
      using generatePlan_returns by blast
    have "show_nat (clock env1) = show_nat (clock env2) \<longleftrightarrow> clock env1 = clock env2"
      by (auto dest: show_nat_inj)
    with False show ?thesis
      by (simp add: Generate_plan ds)
  qed
qed simp_all

text \<open>
  Claim C8 as stated fails: two calls with the same arguments, one millisecond apart,
  return different plans.
\<close>

theorem generatePlan_depends_on_clock:
  "generatePlan 1700000000000 ''Block A'' ''ppl_3'' 3 Goal_strength False
     \<noteq> generatePlan 1700000000001 ''Block A'' ''ppl_3'' 3 Goal_strength False"
  by (simp add: generatePlan_def SPLIT_TEMPLATES_get_def SPLIT_TEMPLATES_def Let_def
      show_nat.simps digit_char_def)

text \<open>
  The fallback to \<open>ppl_3\<close> is for tags the table does not know; the tag \<open>constructor\<close>
  finds the inherited member and the call throws.
\<close>

lemma generatePlan_unknown_tag_falls_back:
  "map workoutType
     (case generatePlan 0 ''Block A'' ''unknown'' 3 Goal_strength False of
        Inr p \<Rightarrow> days p | Inl e \<Rightarrow> [])
     = [Push, Pull, Legs]"
  by (simp add: generatePlan_def SPLIT_TEMPLATES_get_def SPLIT_TEMPLATES_def
      Object_prototype_names_def Let_def upt_rec)

lemma generatePlan_inherited_tag_throws:
  "generatePlan 0 ''Block A'' ''constructor'' 3 Goal_strength False = Inl TypeError"
  by (simp add: generatePlan_throws Object_prototype_names_def)

subsection \<open>Periodization calculator\<close>

lemma upt_join: "i \<le> j \<Longrightarrow> j \<le> k \<Longrightarrow> [i..<j] @ [j..<k] = [i..<k]"
  by (metis le_Suc_ex upt_add_eq_append)

text \<open>
  Claim C1, as amended. For every block of 4 to 16 weeks the week numbers of the output
  are \<open>1, 2, ..., n\<close> in order, each once, where \<open>n\<close> is \<open>totalWeeks\<close> for the goals
  strength and peaking and for hypertrophy with a deload, and
  \<open>floor (0.5 * totalWeeks) + floor (0.35 * totalWeeks)\<close> for hypertrophy without a
  deload.
\<close>

theorem periodization_weeks:
  assumes "4 \<le> totalWeeks" "totalWeeks \<le> 16"
  shows "map week (calculate_periodization totalWeeks goal includeDeload)
           = [1 ..< Suc (if goal = Hypertrophy \<and> \<not> includeDeload
                         then totalWeeks div 2 + (totalWeeks * 35) div 100
                         else totalWeeks)]"
proof (cases goal)
  case Hypertrophy
  have le: "totalWeeks div 2 + (totalWeeks * 35) div 100 \<le> totalWeeks"
    by linarith
  show ?thesis
    using le
    by (simp add: Hypertrophy calculate_periodization_def Let_def o_def upt_join del: upt_Suc)
next
  case Strength
  have le: "(totalWeeks * 4) div 10 + (totalWeeks * 4) div 10 \<le> totalWeeks"
    by linarith
  show ?thesis
    using le
    by (simp add: Strength calculate_periodization_def Let_def o_def upt_join del: upt_Suc)
next
  case Peaking
  show ?thesis
    by (simp add: Peaking calculate_periodization_def Let_def o_def del: upt_Suc)
qed

theorem periodization_weeks_witness:
  "(4::nat) \<le> 12 \<and> (12::nat) \<le> 16
   \<and> map week (calculate_periodization 12 Strength True) = [1 ..< Suc 12]
   \<and> map week (calculate_periodization 12 Hypertrophy False)
       = [1 ..< Suc (12 div 2 + (12 * 35) div 100)]"
  using periodization_weeks [of 12 Strength True] periodization_weeks [of 12 Hypertrophy False]
  by simp

text \<open>
  Claim C1 as stated fails: a 4-week hypertrophy block without a deload has the three
  entries of weeks 1, 2 and 3; week 4 is missing.
\<close>

theorem periodization_drops_remainder:
  "map week (calculate_periodization 4 Hypertrophy False) = [1, 2, 3]
   \<and> length (calculate_periodization 4 Hypertrophy False) \<noteq> 4"
  by (simp add: calculate_periodization_def Let_def upt_rec)

subsection \<open>Hybrid schedule optimizer\<close>

text \<open>
  The two sorts and the rest-day pass give, for each weekday in order, the session placed
  on that day, or a rest entry. The inputs range over the values the tool's schema
  admits, and the equation is checked for each of them.
\<close>

lemma day_strength_slot: "day (strength_slot strengthDays (i, dayIdx)) = weekDays ! nat dayIdx"
  by (simp add: strength_slot_def Let_def)

lemma day_cardio_slot: "day (cardio_slot strengthDays cardioType prioritize i) = weekDays ! nat i"
  by (simp add: cardio_slot_def Let_def)

lemma day_main_cardio_slot: "day (main_cardio_slot cardioType dayIdx) = weekDays ! nat dayIdx"
  by (simp add: main_cardio_slot_def)

lemma day_rest_slot: "day (rest_slot d) = d"
  by (simp add: rest_slot_def)

lemma place_strength_first:
  "prioritize \<noteq> Prio_cardio \<Longrightarrow>
   place_sessions strengthDays cardioDays cardioType prioritize =
     add_cardio strengthDays cardioDays cardioType prioritize 0 0
       (map (strength_slot strengthDays) (enumerate 0 (strengthSchedule strengthDays)))"
  by (cases prioritize) (simp_all add: place_sessions_def)

lemma place_cardio_first:
  "place_sessions strengthDays cardioDays cardioType Prio_cardio =
     add_strength strengthDays (cardioPattern cardioDays) 0 0
       (map (main_cardio_slot cardioType) (cardioPattern cardioDays))"
  by (simp add: place_sessions_def)

lemmas finish_simps = optimize_hybrid_schedule_def sort_by_day_def add_rest_days_def
  strengthSchedule_def cardioPattern_def enumerate_eq_zip slot_for_def rest_slot_def weekDays_def
  day_strength_slot day_cardio_slot day_main_cardio_slot

lemma schedule_by_weekday_strength_first:
  "strengthDays \<in> {2, 3, 4} \<Longrightarrow> cardioDays \<in> {1, 2, 3} \<Longrightarrow> prioritize \<noteq> Prio_cardio \<Longrightarrow>
   optimize_hybrid_schedule strengthDays cardioDays cardioType prioritize
     = map (slot_for (place_sessions strengthDays cardioDays cardioType prioritize)) weekDays"
  by (elim insertE emptyE; simp add: place_strength_first finish_simps)

lemma schedule_by_weekday_cardio_first:
  "strengthDays \<in> {2, 3, 4} \<Longrightarrow> cardioDays \<in> {1, 2, 3} \<Longrightarrow>
   optimize_hybrid_schedule strengthDays cardioDays cardioType Prio_cardio
     = map (slot_for (place_sessions strengthDays cardioDays cardioType Prio_cardio)) weekDays"
  by (elim insertE emptyE; simp add: place_cardio_first finish_simps)

lemma schedule_by_weekday:
  assumes "strengthDays \<in> {2, 3, 4}" "cardioDays \<in> {1, 2, 3}"
  shows "optimize_hybrid_schedule strengthDays cardioDays cardioType prioritize
           = map (slot_for (place_sessions strengthDays cardioDays cardioType prioritize)) weekDays"
proof (cases "prioritize = Prio_cardio")
  case True
  with assms show ?thesis by (simp add: schedule_by_weekday_cardio_first)
next
  case False
  with assms show ?thesis by (rule schedule_by_weekday_strength_first)
qed

lemma find_day_Some:
  "find (\<lambda>s. day s = d) placed = Some x \<Longrightarrow> day x = d \<and> x \<in> set placed"
  by (induction placed) (auto split: if_splits)

lemma find_day_None: "find (\<lambda>s. day s = d) placed = None \<longleftrightarrow> d \<notin> day ` set placed"
  by (induction placed) auto

lemma day_slot_for: "day (slot_for placed d) = d"
proof (cases "find (\<lambda>s. day s = d) placed")
  case None
  then show ?thesis by (simp add: slot_for_def rest_slot_def)
next
  case (Some x)
  then have "day x = d" by (rule find_day_Some [THEN conjunct1])
  with Some show ?thesis by (simp add: slot_for_def)
qed

lemma slot_for_unplaced: "d \<notin> day ` set placed \<Longrightarrow> slot_for placed d = rest_slot d"
  by (simp only: slot_for_def find_day_None [symmetric] option.case)

lemma slot_for_placed_or_rest:
  "slot_for placed d \<in> set placed \<or> slot_for placed d = rest_slot d"
proof (cases "find (\<lambda>s. day s = d) placed")
  case None
  then show ?thesis by (simp add: slot_for_def)
next
  case (Some x)
  then have "x \<in> set placed" by (rule find_day_Some [THEN conjunct2])
  with Some show ?thesis by (simp add: slot_for_def)
qed

lemma placed_days:
  "strengthDays \<in> {2, 3, 4} \<Longrightarrow> cardioDays \<in> {1, 2, 3} \<Longrightarrow>
   placed = place_sessions strengthDays cardioDays cardioType prioritize \<Longrightarrow>
   distinct (map day placed) \<and> set (map day placed) \<subseteq> set weekDays"
  by (cases "prioritize = Prio_cardio"; elim insertE emptyE;
      simp add: place_strength_first place_cardio_first strengthSchedule_def cardioPattern_def
        enumerate_eq_zip weekDays_def day_strength_slot day_cardio_slot day_main_cardio_slot)

lemma slot_for_own_day:
  "distinct (map day placed) \<Longrightarrow> p \<in> set placed \<Longrightarrow> slot_for placed (day p) = p"
proof (induction placed)
  case Nil
  then show ?case by simp
next
  case (Cons q placed)
  show ?case
  proof (cases "day q = day p")
    case True
    with Cons.prems have "q = p" by (auto simp: image_iff)
    then show ?thesis by (simp add: slot_for_def)
  next
    case False
    with Cons.prems have "p \<in> set placed" "distinct (map day placed)" by auto
    with Cons.IH have "slot_for placed (day p) = p" by simp
    with False show ?thesis by (simp add: slot_for_def)
  qed
qed

lemma all_less_7:
  "(\<forall>i<(7::nat). P i) \<longleftrightarrow> P 0 \<and> P 1 \<and> P 2 \<and> P 3 \<and> P 4 \<and> P 5 \<and> P 6"
proof -
  have "{..<(7::nat)} = {0, 1, 2, 3, 4, 5, 6}" by auto
  then have "(\<forall>i<(7::nat). P i) \<longleftrightarrow> (\<forall>i \<in> {0, 1, 2, 3, 4, 5, 6}. P i)"
    by (metis lessThan_iff)
  then show ?thesis by simp
qed

lemma cardio_labels_by_weekday:
  "strengthDays \<in> {2, 3, 4} \<Longrightarrow> cardioDays \<in> {1, 2, 3} \<Longrightarrow>
   prioritize = Prio_strength \<or> prioritize = Prio_balanced \<and> strengthDays \<noteq> 2 \<Longrightarrow>
   S = map (slot_for (place_sessions strengthDays cardioDays cardioType prioritize)) weekDays \<Longrightarrow>
   \<forall>i<7. is_cardio (S ! i) \<longrightarrow>
     (if prioritize = Prio_strength \<or> activity (S ! ((i + 1) mod 7)) = ''Lower Body''
      then is_easy cardioType (S ! i)
      else is_quality cardioType (S ! i))"
  by (elim insertE emptyE disjE conjE;
      simp add: place_strength_first strengthSchedule_def enumerate_eq_zip slot_for_def
        rest_slot_def weekDays_def strength_slot_def cardio_slot_def Let_def
        is_cardio_def is_easy_def is_quality_def all_less_7)

lemmas schedule_eval =
  optimize_hybrid_schedule_def sort_by_day_def add_rest_days_def place_sessions_def
  strengthSchedule_def cardioPattern_def enumerate_eq_zip weekDays_def
  strength_slot_def cardio_slot_def main_cardio_slot_def Let_def

text \<open>
  Claim C2. For 2 to 4 strength days, 1 to 3 cardio days, every cardio type and every
  priority, the schedule has 7 entries, their days are Monday to Sunday in this order,
  no weekday twice; every session a strategy placed is in the schedule, every other entry
  is the rest entry of its day, and a day on which no session was placed has the rest
  entry.
\<close>

theorem hybrid_schedule_covers_week:
  assumes "strengthDays \<in> {2, 3, 4}" "cardioDays \<in> {1, 2, 3}"
  shows "length (optimize_hybrid_schedule strengthDays cardioDays cardioType prioritize) = 7
       \<and> map day (optimize_hybrid_schedule strengthDays cardioDays cardioType prioritize)
           = [''Monday'', ''Tuesday'', ''Wednesday'', ''Thursday'', ''Friday'', ''Saturday'',
              ''Sunday'']
       \<and> distinct (map day (optimize_hybrid_schedule strengthDays cardioDays cardioType prioritize))
       \<and> set (place_sessions strengthDays cardioDays cardioType prioritize) \<subseteq> set (optimize_hybrid_schedule strengthDays cardioDays cardioType prioritize)
       \<and> (\<forall>s \<in> set (optimize_hybrid_schedule strengthDays cardioDays cardioType prioritize).
             s \<in> set (place_sessions strengthDays cardioDays cardioType prioritize)
             \<or> s = rest_slot (day s))
       \<and> (\<forall>s \<in> set (optimize_hybrid_schedule strengthDays cardioDays cardioType prioritize).
             day s \<notin> day ` set (place_sessions strengthDays cardioDays cardioType prioritize)
             \<longrightarrow> s = rest_slot (day s))"
proof -
  let ?placed = "place_sessions strengthDays cardioDays cardioType prioritize"
  let ?S = "optimize_hybrid_schedule strengthDays cardioDays cardioType prioritize"
  have S: "?S = map (slot_for ?placed) weekDays"
    using assms by (rule schedule_by_weekday)
  have days: "map day ?S = weekDays"
    unfolding S by (simp add: day_slot_for o_def)
  have len: "length ?S = 7"
    unfolding S by (simp add: weekDays_def)
  have dist: "distinct (map day ?S)"
    unfolding days by (simp add: weekDays_def)
  have pd: "distinct (map day ?placed) \<and> set (map day ?placed) \<subseteq> set weekDays"
    using assms refl by (rule placed_days)
  have sub: "set ?placed \<subseteq> set ?S"
  proof
    fix p assume p: "p \<in> set ?placed"
    with pd have "slot_for ?placed (day p) = p" "day p \<in> set weekDays"
      by (auto simp: slot_for_own_day)
    then show "p \<in> set ?S"
      unfolding S by (metis image_eqI set_map)
  qed
  have a: "\<forall>s \<in> set ?S. s \<in> set ?placed \<or> s = rest_slot (day s)"
    unfolding S using slot_for_placed_or_rest [of ?placed] by (auto simp: day_slot_for)
  have b: "\<forall>s \<in> set ?S. day s \<notin> day ` set ?placed \<longrightarrow> s = rest_slot (day s)"
    unfolding S by (auto simp: day_slot_for slot_for_unplaced day_rest_slot)
  from len days dist sub a b show ?thesis
    by (simp add: weekDays_def)
qed

theorem hybrid_schedule_covers_week_witness:
  "(3::nat) \<in> {2, 3, 4} \<and> (2::nat) \<in> {1, 2, 3}
   \<and> length (optimize_hybrid_schedule 3 2 Running Prio_balanced) = 7
   \<and> map day (optimize_hybrid_schedule 3 2 Running Prio_balanced)
       = [''Monday'', ''Tuesday'', ''Wednesday'', ''Thursday'', ''Friday'', ''Saturday'',
          ''Sunday'']
   \<and> distinct (map day (optimize_hybrid_schedule 3 2 Running Prio_balanced))
   \<and> optimize_hybrid_schedule 3 2 Running Prio_balanced ! 6
       \<in> set (optimize_hybrid_schedule 3 2 Running Prio_balanced)
   \<and> ''Sunday'' \<notin> day ` set (place_sessions 3 2 Running Prio_balanced)
   \<and> optimize_hybrid_schedule 3 2 Running Prio_balanced ! 6 = rest_slot ''Sunday''"
proof -
  let ?W = "optimize_hybrid_schedule 3 2 Running Prio_balanced"
  have h: "(3::nat) \<in> {2, 3, 4}" "(2::nat) \<in> {1, 2, 3}" by simp_all
  note t = hybrid_schedule_covers_week [OF h, of Running Prio_balanced]
  from t have len: "length ?W = 7" by blast
  from t have days: "map day ?W
      = [''Monday'', ''Tuesday'', ''Wednesday'', ''Thursday'', ''Friday'', ''Saturday'',
         ''Sunday'']" by blast
  from t have dist: "distinct (map day ?W)" by blast
  from t have rest: "\<forall>s \<in> set ?W.
      day s \<notin> day ` set (place_sessions 3 2 Running Prio_balanced) \<longrightarrow> s = rest_slot (day s)"
    by blast
  have mem: "?W ! 6 \<in> set ?W"
    using len by simp
  have "map day ?W ! 6 = day (?W ! 6)"
    using len by (simp add: nth_map)
  then have d6: "day (?W ! 6) = ''Sunday''"
    by (simp add: days)
  have un: "''Sunday'' \<notin> day ` set (place_sessions 3 2 Running Prio_balanced)"
    by (simp add: place_sessions_def strengthSchedule_def enumerate_eq_zip weekDays_def
        strength_slot_def cardio_slot_def Let_def)
  from rest mem d6 un have r6: "?W ! 6 = rest_slot ''Sunday''"
    by metis
  from h len days dist mem un r6 show ?thesis
    by blast
qed

text \<open>
  Claim C6, as amended. In strength-first scheduling with priority strength, every cardio
  entry of the schedule is an Easy entry (Zone 2, 30-40 min). With priority balanced and
  3 or 4 strength days, a cardio entry is an Easy entry if the entry of the following day
  (Monday following Sunday) is Lower Body, and a Quality entry (intervals or tempo,
  20-30 min) otherwise.
\<close>

theorem cardio_label_rule:
  assumes "strengthDays \<in> {2, 3, 4}" "cardioDays \<in> {1, 2, 3}"
    and "prioritize = Prio_strength \<or> prioritize = Prio_balanced \<and> strengthDays \<noteq> 2"
    and "i < 7"
    and "is_cardio (optimize_hybrid_schedule strengthDays cardioDays cardioType prioritize ! i)"
  shows "if prioritize = Prio_strength
            \<or> activity (optimize_hybrid_schedule strengthDays cardioDays cardioType prioritize ! ((i + 1) mod 7)) = ''Lower Body''
         then is_easy cardioType (optimize_hybrid_schedule strengthDays cardioDays cardioType prioritize ! i)
         else is_quality cardioType (optimize_hybrid_schedule strengthDays cardioDays cardioType prioritize ! i)"
proof -
  have S: "optimize_hybrid_schedule strengthDays cardioDays cardioType prioritize
             = map (slot_for (place_sessions strengthDays cardioDays cardioType prioritize))
                 weekDays"
    using assms(1,2) by (rule schedule_by_weekday)
  from cardio_labels_by_weekday [OF assms(1,2,3) S] assms(4,5) show ?thesis
    by blast
qed

theorem cardio_label_rule_witness:
  "(3::nat) \<in> {2, 3, 4} \<and> (3::nat) \<in> {1, 2, 3}
   \<and> (Prio_balanced = Prio_strength \<or> Prio_balanced = Prio_balanced \<and> (3::nat) \<noteq> 2)
   \<and> (3::nat) < 7
   \<and> is_cardio (optimize_hybrid_schedule 3 3 Cycling Prio_balanced ! 3)
   \<and> activity (optimize_hybrid_schedule 3 3 Cycling Prio_balanced ! ((3 + 1) mod 7))
       = ''Lower Body''
   \<and> is_easy Cycling (optimize_hybrid_schedule 3 3 Cycling Prio_balanced ! 3)"
proof -
  have c: "is_cardio (optimize_hybrid_schedule 3 3 Cycling Prio_balanced ! 3)"
    by (simp add: schedule_eval is_cardio_def)
  have n: "activity (optimize_hybrid_schedule 3 3 Cycling Prio_balanced ! ((3 + 1) mod 7))
             = ''Lower Body''"
    by (simp add: schedule_eval)
  have h: "(3::nat) \<in> {2, 3, 4}" "(3::nat) \<in> {1, 2, 3}"
    "Prio_balanced = Prio_strength \<or> Prio_balanced = Prio_balanced \<and> (3::nat) \<noteq> 2"
    "(3::nat) < 7"
    by simp_all
  show ?thesis
    using h c n cardio_label_rule [OF h c] by simp
qed

text \<open>
  Claim C6 as stated fails: with priority strength, 3 strength days and 1 cardio day, the
  cardio entry of Tuesday is Easy although Wednesday is an Upper Body day.
\<close>

theorem easy_cardio_before_upper_day:
  "activity (optimize_hybrid_schedule 3 1 Running Prio_strength ! 1) = ''Easy Cardio''
   \<and> activity (optimize_hybrid_schedule 3 1 Running Prio_strength ! 2) = ''Upper Body''
   \<and> \<not> (activity (optimize_hybrid_schedule 3 1 Running Prio_strength ! 1) = ''Easy Cardio''
        \<longleftrightarrow> activity (optimize_hybrid_schedule 3 1 Running Prio_strength ! 2) = ''Lower Body'')"
  by (simp add: schedule_eval)

text \<open>
  With priority balanced and 2 strength days the code looks for the strength slots of
  even position, while the Lower Body session is the one of odd position (Thursday):
  the cardio entry of Wednesday is Quality although Thursday is Lower Body.
\<close>

lemma quality_cardio_before_lower_day:
  "activity (optimize_hybrid_schedule 2 2 Running Prio_balanced ! 2) = ''Quality Cardio''
   \<and> activity (optimize_hybrid_schedule 2 2 Running Prio_balanced ! 3) = ''Lower Body''"
  by (simp add: schedule_eval)

text \<open>
  Claim C10. In cardio-priority scheduling with 3 cardio days the cardio sessions are on
  Tuesday, Thursday and Saturday, and for 2, 3 and 4 requested strength days alike the
  only strength session is the Upper Body session of Monday: fewer strength sessions
  than requested.
\<close>

theorem cardio_first_one_strength_session:
  assumes "strengthDays \<in> {2, 3, 4}"
  shows "optimize_hybrid_schedule strengthDays 3 cardioType Prio_cardio =
           [\<lparr>day = ''Monday'', activity = ''Upper Body'', slot_notes = ''Strength session''\<rparr>,
            \<lparr>day = ''Tuesday'', activity = ''Quality Cardio'',
              slot_notes = ''Main '' @ cardioType_str cardioType @ '' session''\<rparr>,
            \<lparr>day = ''Wednesday'', activity = ''Rest'', slot_notes = ''Recovery day''\<rparr>,
            \<lparr>day = ''Thursday'', activity = ''Quality Cardio'',
              slot_notes = ''Main '' @ cardioType_str cardioType @ '' session''\<rparr>,
            \<lparr>day = ''Friday'', activity = ''Rest'', slot_notes = ''Recovery day''\<rparr>,
            \<lparr>day = ''Saturday'', activity = ''Quality Cardio'',
              slot_notes = ''Main '' @ cardioType_str cardioType @ '' session''\<rparr>,
            \<lparr>day = ''Sunday'', activity = ''Rest'', slot_notes = ''Recovery day''\<rparr>]
       \<and> filter is_strength (optimize_hybrid_schedule strengthDays 3 cardioType Prio_cardio) =
           [\<lparr>day = ''Monday'', activity = ''Upper Body'', slot_notes = ''Strength session''\<rparr>]
       \<and> length (filter is_strength
                   (optimize_hybrid_schedule strengthDays 3 cardioType Prio_cardio))
           < strengthDays"
proof -
  have eq: "optimize_hybrid_schedule strengthDays 3 cardioType Prio_cardio =
           [\<lparr>day = ''Monday'', activity = ''Upper Body'', slot_notes = ''Strength session''\<rparr>,
            \<lparr>day = ''Tuesday'', activity = ''Quality Cardio'',
              slot_notes = ''Main '' @ cardioType_str cardioType @ '' session''\<rparr>,
            \<lparr>day = ''Wednesday'', activity = ''Rest'', slot_notes = ''Recovery day''\<rparr>,
            \<lparr>day = ''Thursday'', activity = ''Quality Cardio'',
              slot_notes = ''Main '' @ cardioType_str cardioType @ '' session''\<rparr>,
            \<lparr>day = ''Friday'', activity = ''Rest'', slot_notes = ''Recovery day''\<rparr>,
            \<lparr>day = ''Saturday'', activity = ''Quality Cardio'',
              slot_notes = ''Main '' @ cardioType_str cardioType @ '' session''\<rparr>,
            \<lparr>day = ''Sunday'', activity = ''Rest'', slot_notes = ''Recovery day''\<rparr>]"
    using assms by (elim insertE emptyE; simp add: schedule_eval)
  have lt: "1 < strengthDays"
    using assms by auto
  show ?thesis
    unfolding eq using lt by (simp add: is_strength_def)
qed

theorem cardio_first_one_strength_session_witness:
  "(4::nat) \<in> {2, 3, 4}
   \<and> filter is_strength (optimize_hybrid_schedule 4 3 Swimming Prio_cardio) =
       [\<lparr>day = ''Monday'', activity = ''Upper Body'', slot_notes = ''Strength session''\<rparr>]
   \<and> length (filter is_strength (optimize_hybrid_schedule 4 3 Swimming Prio_cardio)) < 4"
proof -
  have h: "(4::nat) \<in> {2, 3, 4}" by simp
  show ?thesis
    using h cardio_first_one_strength_session [OF h, of Swimming] by blast
qed

end
